theory Spec2Isabelle
  imports Main "HOL-Library.Word"
begin

section \<open>Strings and numbers of the Go runtime used by server.go\<close>

text \<open>
  Go strings are byte sequences; \<^typ>\<open>string\<close> is a list of bytes as well.
  \<open>strings.HasPrefix\<close> and \<open>strings.Contains\<close> are written as the recursions
  they compute (a substring search from every start position).
\<close>

fun HasPrefix :: "string \<Rightarrow> string \<Rightarrow> bool" where
  "HasPrefix s [] = True"
| "HasPrefix [] (c # p) = False"
| "HasPrefix (d # s) (c # p) = (d = c \<and> HasPrefix s p)"

fun Contains :: "string \<Rightarrow> string \<Rightarrow> bool" where
  "Contains [] substr = (substr = [])"
| "Contains (c # s) substr = (HasPrefix (c # s) substr \<or> Contains s substr)"

text \<open>\<open>fmt.Sprintf("%d", n)\<close>: the decimal digits of a Go \<open>int\<close>, with a minus sign.\<close>

definition digit_char :: "nat \<Rightarrow> char" where
  "digit_char d = ''0123456789'' ! d"

function decimal :: "nat \<Rightarrow> string" where
  "decimal n = (if n < 10 then [digit_char n] else decimal (n div 10) @ [digit_char (n mod 10)])"
  by pat_completeness auto
termination
  by (relation "measure id") auto

declare decimal.simps [simp del]

definition Sprintf_d :: "int \<Rightarrow> string" where
  "Sprintf_d n = (if n < 0 then CHR ''-'' # decimal (nat (- n)) else decimal (nat n))"

section \<open>Log verbosity of an endpoint\<close>

text \<open>\<open>klogv2.Level\<close> is an \<open>int32\<close>: a 32-bit word, read with \<open>sint\<close>.\<close>

type_synonym Level = "32 word"

definition suppressLoggingOfEndpoints :: "string list" where
  "suppressLoggingOfEndpoints = [''GetConfiguredPlugins'']"

text \<open>
  The \<open>for i := 0; i < len(...); i++\<close> loop of \<open>getLogLevelOfEndpoint\<close>:
  \<open>level = 4; break\<close> at the first entry contained in the endpoint.
\<close>

function getLogLevelOfEndpoint_loop :: "string \<Rightarrow> string list \<Rightarrow> nat \<Rightarrow> Level \<Rightarrow> Level" where
  "getLogLevelOfEndpoint_loop endpoint names i level =
     (if i < length names
      then (if Contains endpoint (names ! i) then 4
            else getLogLevelOfEndpoint_loop endpoint names (Suc i) level)
      else level)"
  by pat_completeness auto
termination
  by (relation "measure (\<lambda>(endpoint, names, i, level). length names - i)") auto

declare getLogLevelOfEndpoint_loop.simps [simp del]

definition getLogLevelOfEndpoint :: "string \<Rightarrow> Level" where
  "getLogLevelOfEndpoint endpoint =
     getLogLevelOfEndpoint_loop endpoint suppressLoggingOfEndpoints 0 3"

section \<open>The proxy to the improbable handler\<close>

record Url =
  Scheme :: string
  Host :: string
  Path :: string
  RawQuery :: string

record Request =
  Method :: string
  URL :: Url
  ProtoMajor :: int
  ProtoMinor :: int
  Header :: "(string \<times> string list) list"
  Body :: string

text \<open>
  The two reverse proxies differ in their transport: \<open>h2cProxy\<close> has an
  \<open>http2.Transport\<close> with \<open>AllowHTTP\<close> and a cleartext dial, \<open>http1Proxy\<close> has no
  transport field and so uses the default HTTP/1.1 one.
\<close>

datatype Transport = H2cTransport | DefaultTransport

record ReverseProxy =
  Director :: "Request \<Rightarrow> Request"
  Transport :: Transport

definition h2cProxy :: "int \<Rightarrow> ReverseProxy" where
  "h2cProxy port =
     \<lparr>Director = (\<lambda>r. r\<lparr>URL := (URL r)\<lparr>Scheme := ''http'',
                                          Host := ''127.0.0.1:'' @ Sprintf_d port\<rparr>\<rparr>),
      Transport = H2cTransport\<rparr>"

definition http1Proxy :: "int \<Rightarrow> ReverseProxy" where
  "http1Proxy port =
     \<lparr>Director = (\<lambda>r. r\<lparr>URL := (URL r)\<lparr>Scheme := ''http'',
                                          Host := ''127.0.0.1:'' @ Sprintf_d port\<rparr>\<rparr>),
      Transport = DefaultTransport\<rparr>"

text \<open>
  What \<open>ReverseProxy.ServeHTTP\<close> is observed by: the transport the request is sent
  on and the request after the proxy's \<open>Director\<close> has rewritten it.
\<close>

record Proxied =
  via :: Transport
  outreq :: Request

definition ServeHTTP :: "ReverseProxy \<Rightarrow> Request \<Rightarrow> Proxied" where
  "ServeHTTP p r = \<lparr>via = Transport p, outreq = Director p r\<rparr>"

definition createProxyToImprobableHandler :: "int \<Rightarrow> Request \<Rightarrow> Proxied" where
  "createProxyToImprobableHandler port r =
     (if ProtoMajor r = 2 then ServeHTTP (h2cProxy port) r
      else ServeHTTP (http1Proxy port) r)"

section \<open>Parsing the port of the listener\<close>

text \<open>
  \<open>strings.SplitAfter(s, ":")\<close> cuts after every colon and always returns at least
  one part; \<open>strconv.Atoi\<close> accepts an optional sign and decimal digits within the
  range of a 64-bit \<open>int\<close>.
\<close>

fun SplitAfter :: "string \<Rightarrow> char \<Rightarrow> string list" where
  "SplitAfter [] sep = [[]]"
| "SplitAfter (c # s) sep =
     (if c = sep then [c] # SplitAfter s sep
      else (case SplitAfter s sep of [] \<Rightarrow> [[c]] | part # parts \<Rightarrow> (c # part) # parts))"

definition isDigit :: "char \<Rightarrow> bool" where
  "isDigit ch = (48 \<le> (of_char ch :: nat) \<and> (of_char ch :: nat) \<le> 57)"

fun digits_value :: "nat \<Rightarrow> string \<Rightarrow> nat" where
  "digits_value n [] = n"
| "digits_value n (ch # s) = digits_value (n * 10 + (of_char ch - 48)) s"

definition Atoi :: "string \<Rightarrow> string + int" where
  "Atoi s =
     (let neg = (s \<noteq> [] \<and> hd s = CHR ''-'');
          ds = (if s \<noteq> [] \<and> (hd s = CHR ''-'' \<or> hd s = CHR ''+'') then tl s else s)
      in if ds = [] \<or> \<not> list_all isDigit ds then Inl ''invalid syntax''
         else (let n = (if neg then - int (digits_value 0 ds) else int (digits_value 0 ds))
               in if n < - (2 ^ 63) \<or> 2 ^ 63 - 1 < n then Inl ''value out of range''
                  else Inr n))"

section \<open>Plugins and the core services built from them\<close>

datatype ServiceContract =
  PackagesServiceServer | RepositoriesServiceServer | PluginsServiceServer

record PluginHandle =
  plugin_name :: string
  capabilities :: "ServiceContract set"

text \<open>
  Modelled from the spec: the plugins server and its query
  \<open>GetPluginsSatisfyingInterface\<close> (package core/plugins/v1alpha1) are not under
  src/. The spec's Capability Router: given a contract and the loaded plugin handles,
  the ordered sub-collection of the handles whose capability set includes the
  contract, in the order of the input; no error.
\<close>

record PluginsServer =
  pluginsWithServers :: "PluginHandle list"

primrec satisfying :: "ServiceContract \<Rightarrow> PluginHandle list \<Rightarrow> PluginHandle list" where
  "satisfying c [] = []"
| "satisfying c (p # ps) =
     (if c \<in> capabilities p then p # satisfying c ps else satisfying c ps)"

definition GetPluginsSatisfyingInterface ::
  "PluginsServer \<Rightarrow> ServiceContract \<Rightarrow> PluginHandle list" where
  "GetPluginsSatisfyingInterface s c = satisfying c (pluginsWithServers s)"

datatype Service =
  ServerReflection
| PackagesService "PluginHandle list"
| RepositoriesService "PluginHandle list"

text \<open>
  Modelled from the spec: the constructors \<open>NewPackagesServer\<close> and
  \<open>NewRepositoriesServer\<close> (package core/packages/v1alpha1) are not under src/.
  The spec has service construction as a step that can fail and the empty plugin
  sequence as a valid registration of an empty service; a failure is therefore one
  of a plugin handed in (\<open>unusable p\<close> is its message), and there is none without
  plugins.
\<close>

primrec first_unusable :: "(PluginHandle \<Rightarrow> string option) \<Rightarrow> PluginHandle list \<Rightarrow> string option" where
  "first_unusable unusable [] = None"
| "first_unusable unusable (p # ps) =
     (case unusable p of Some err \<Rightarrow> Some err | None \<Rightarrow> first_unusable unusable ps)"

definition NewPackagesServer ::
  "(PluginHandle \<Rightarrow> string option) \<Rightarrow> PluginHandle list \<Rightarrow> string + Service" where
  "NewPackagesServer unusable ps =
     (case first_unusable unusable ps of Some err \<Rightarrow> Inl err | None \<Rightarrow> Inr (PackagesService ps))"

definition NewRepositoriesServer ::
  "(PluginHandle \<Rightarrow> string option) \<Rightarrow> PluginHandle list \<Rightarrow> string + Service" where
  "NewRepositoriesServer unusable ps =
     (case first_unusable unusable ps of Some err \<Rightarrow> Inl err | None \<Rightarrow> Inr (RepositoriesService ps))"

section \<open>The logging interceptor\<close>

text \<open>The gRPC status codes, and the two kinds of Go error \<open>status.Code\<close> tells apart.\<close>

datatype codes_Code =
  OK | Canceled | Unknown | InvalidArgument | DeadlineExceeded | NotFound | AlreadyExists
| PermissionDenied | ResourceExhausted | FailedPrecondition | Aborted | OutOfRange
| Unimplemented | Internal | Unavailable | DataLoss | Unauthenticated

datatype GoError = StatusError codes_Code string | PlainError string

fun status_Code :: "GoError option \<Rightarrow> codes_Code" where
  "status_Code None = OK"
| "status_Code (Some (StatusError c msg)) = c"
| "status_Code (Some (PlainError msg)) = Unknown"

record UnaryServerInfo =
  FullMethod :: string

text \<open>
  One call of \<open>klogv2.V(level).Infof("%v %s %s\n", code, duration, method)\<close>, with
  its arguments; whether klog prints the line depends on the verbosity the process
  runs with. The duration is in nanoseconds.
\<close>

record LogCall =
  log_V :: Level
  log_code :: codes_Code
  log_duration :: int
  log_method :: string

text \<open>The world a handler runs in: the monotonic clock and the klog calls made so far.\<close>

record World =
  now :: int
  klog :: "LogCall list"

type_synonym UnaryHandler = "string \<Rightarrow> World \<Rightarrow> (string \<times> GoError option) \<times> World"

type_synonym UnaryServerInterceptor =
  "string \<Rightarrow> UnaryServerInfo \<Rightarrow> UnaryHandler \<Rightarrow> World \<Rightarrow> (string \<times> GoError option) \<times> World"

definition LogRequest :: UnaryServerInterceptor where
  "LogRequest req info handler w =
     (let start = now w;
          ((res, err), w1) = handler req w;
          level = getLogLevelOfEndpoint (FullMethod info);
          w2 = w1\<lparr>klog := klog w1 @
                  [\<lparr>log_V = level, log_code = status_Code err,
                    log_duration = now w1 - start, log_method = FullMethod info\<rparr>]\<rparr>
      in ((res, err), w2))"

text \<open>
  The server of \<open>grpc.NewServer(grpc.ChainUnaryInterceptor(...))\<close>: its interceptors
  and the services registered on it. A unary call runs the handler inside the chain,
  the first interceptor outermost.
\<close>

record GrpcServer =
  chainUnaryInts :: "UnaryServerInterceptor list"
  services :: "Service list"

fun chainUnaryInterceptors ::
  "UnaryServerInterceptor list \<Rightarrow> string \<Rightarrow> UnaryServerInfo \<Rightarrow> UnaryHandler \<Rightarrow> World
     \<Rightarrow> (string \<times> GoError option) \<times> World" where
  "chainUnaryInterceptors [] req info handler w = handler req w"
| "chainUnaryInterceptors (i # is) req info handler w =
     i req info (\<lambda>r. chainUnaryInterceptors is r info handler) w"

definition processUnaryRPC ::
  "GrpcServer \<Rightarrow> string \<Rightarrow> UnaryServerInfo \<Rightarrow> UnaryHandler \<Rightarrow> World
     \<Rightarrow> (string \<times> GoError option) \<times> World" where
  "processUnaryRPC srv req info handler w =
     chainUnaryInterceptors (chainUnaryInts srv) req info handler w"

section \<open>The gateway mux\<close>

record protojson_MarshalOptions =
  EmitUnpopulated :: bool

record protojson_UnmarshalOptions =
  DiscardUnknown :: bool

record JSONPb =
  MarshalOptions :: protojson_MarshalOptions
  UnmarshalOptions :: protojson_UnmarshalOptions

text \<open>
  The gateway's \<open>runtime.ServeMux\<close>: the marshalers given by
  \<open>WithMarshalerOption\<close>, by MIME type, the paths added by \<open>HandlePath\<close>, and the
  services registered by the generated \<open>Register...HandlerFromEndpoint\<close>.
\<close>

record ServeMux =
  marshalers :: "(string \<times> JSONPb) list"
  paths :: "(string \<times> string) list"
  endpoints :: "string list"

definition MIMEWildcard :: string where
  "MIMEWildcard = ''*''"

text \<open>
  What the calls made while the server starts answer; they are the surroundings of
  \<open>Serve\<close>, not its code, so they are its parameters. An error is its message.
  \<^item> \<open>handlePathError pattern\<close>: the error of \<open>gwmux.HandlePath\<close> for the pattern;
  \<^item> \<open>inClusterConfigError\<close>, \<open>newForConfigError\<close>: the errors of
    \<open>rest.InClusterConfig\<close> and \<open>kubernetes.NewForConfig\<close>;
  \<^item> \<open>netListen\<close>: the error of \<open>net.Listen("tcp", ":0")\<close>, or the address
    \<open>Addr().String()\<close> of the listener it bound;
  \<^item> \<open>newPluginsServer\<close>: the error of \<open>NewPluginsServer\<close>, or the plugins server
    with the plugins it loaded;
  \<^item> \<open>unusablePackagesPlugin\<close>, \<open>unusableRepositoriesPlugin\<close>: see
    \<open>NewPackagesServer\<close>;
  \<^item> \<open>registerPluginsHandlerError\<close>, \<open>registerPackagesHandlerError\<close>,
    \<open>registerRepositoriesHandlerError\<close>: the errors of the three generated
    \<open>Register...ServiceHandlerFromEndpoint\<close>;
  \<^item> \<open>listenAndServeError\<close>: the error \<open>http.ListenAndServe\<close> returns, \<open>None\<close>
    when it serves and does not return.
\<close>

record Env =
  handlePathError :: "string \<Rightarrow> string option"
  inClusterConfigError :: "string option"
  newForConfigError :: "string option"
  netListen :: "string + string"
  newPluginsServer :: "string + PluginsServer"
  unusablePackagesPlugin :: "PluginHandle \<Rightarrow> string option"
  unusableRepositoriesPlugin :: "PluginHandle \<Rightarrow> string option"
  registerPluginsHandlerError :: "string option"
  registerPackagesHandlerError :: "string option"
  registerRepositoriesHandlerError :: "string option"
  listenAndServeError :: "string option"

definition HandlePath :: "Env \<Rightarrow> ServeMux \<Rightarrow> string \<Rightarrow> string \<Rightarrow> string + ServeMux" where
  "HandlePath env mux meth pattern =
     (case handlePathError env pattern of
        Some err \<Rightarrow> Inl err
      | None \<Rightarrow> Inr (mux\<lparr>paths := paths mux @ [(meth, pattern)]\<rparr>))"

definition gatewayMux :: "Env \<Rightarrow> string + ServeMux" where
  "gatewayMux env =
     (let gwmux = \<lparr>marshalers =
                     [(MIMEWildcard,
                       \<lparr>MarshalOptions = \<lparr>EmitUnpopulated = False\<rparr>,
                        UnmarshalOptions = \<lparr>DiscardUnknown = True\<rparr>\<rparr>)],
                   paths = [], endpoints = []\<rparr>
      in case HandlePath env gwmux ''GET'' ''/openapi.json'' of
           Inl err \<Rightarrow> Inl (''failed to serve: '' @ err)
         | Inr gwmux \<Rightarrow>
      (case HandlePath env gwmux ''GET'' ''/docs'' of
           Inl err \<Rightarrow> Inl (''failed to serve: '' @ err)
         | Inr gwmux \<Rightarrow>
      (case inClusterConfigError env of
           Some err \<Rightarrow> Inl (''failed to retrieve in cluster configuration: '' @ err)
         | None \<Rightarrow>
      (case newForConfigError env of
           Some err \<Rightarrow> Inl (''failed to retrieve clientset: '' @ err)
         | None \<Rightarrow>
      (case HandlePath env gwmux ''GET''
              ''/operators/namespaces/{namespace}/operator/{name}/logo'' of
           Inl err \<Rightarrow> Inl (''failed to serve: '' @ err)
         | Inr gwmux \<Rightarrow> Inr gwmux)))))"

text \<open>
  The two options as protojson documents them. A message is its declared fields in
  order, each populated with a value or unpopulated (then with the JSON of its zero
  value); a JSON object is its members in order.
  \<^item> \<open>Marshal\<close> writes the populated fields, and the unpopulated ones only with
    \<open>EmitUnpopulated\<close>;
  \<^item> \<open>Unmarshal\<close> reads the members named as the message's fields are; a member of another
    name is an error, or is skipped with \<open>DiscardUnknown\<close>.
\<close>

datatype FieldValue = Populated string | Unpopulated string

fun Marshal :: "protojson_MarshalOptions \<Rightarrow> (string \<times> FieldValue) list \<Rightarrow> (string \<times> string) list" where
  "Marshal opts [] = []"
| "Marshal opts ((name, Populated v) # fs) = (name, v) # Marshal opts fs"
| "Marshal opts ((name, Unpopulated zero) # fs) =
     (if EmitUnpopulated opts then (name, zero) # Marshal opts fs else Marshal opts fs)"

fun Unmarshal ::
  "protojson_UnmarshalOptions \<Rightarrow> string list \<Rightarrow> (string \<times> string) list
     \<Rightarrow> string + (string \<times> string) list" where
  "Unmarshal opts known [] = Inr []"
| "Unmarshal opts known ((name, v) # members) =
     (if name \<in> set known
      then (case Unmarshal opts known members of
              Inl err \<Rightarrow> Inl err
            | Inr fs \<Rightarrow> Inr ((name, v) # fs))
      else if DiscardUnknown opts then Unmarshal opts known members
      else Inl (''unknown field '' @ name))"

text \<open>
  The marshaler the gateway takes for a MIME type: the one registered for it, or else
  the one registered for the wildcard.
\<close>

definition MarshalerForMIME :: "ServeMux \<Rightarrow> string \<Rightarrow> JSONPb option" where
  "MarshalerForMIME mux mime =
     (case map_of (marshalers mux) mime of
        Some m \<Rightarrow> Some m
      | None \<Rightarrow> map_of (marshalers mux) MIMEWildcard)"

section \<open>The connection multiplexer of the improbable handler\<close>

text \<open>
  A connection as the matchers of cmux see it: the header fields of the first
  HTTP/2 header block it sends, or \<open>None\<close> when it does not open with the HTTP/2
  client preface (an HTTP/1.1 request, or bytes that are no HTTP at all).
\<close>

record Conn =
  http2_fields :: "(string \<times> string) list option"

datatype Matcher = HTTP2MatchHeaderFieldSendSettings string string | Any

datatype SubListener = grpcListener | grpcWebListener | httpListener

text \<open>
  The header matcher holds when the header block has the field with exactly the
  given value; \<open>cmux.Any()\<close> holds for every connection.
\<close>

fun matches :: "Matcher \<Rightarrow> Conn \<Rightarrow> bool" where
  "matches (HTTP2MatchHeaderFieldSendSettings name v) c =
     (case http2_fields c of None \<Rightarrow> False | Some hs \<Rightarrow> (name, v) \<in> set hs)"
| "matches Any c = True"

text \<open>
  \<open>mux.Serve\<close> hands a connection to the listener of the first registered matcher
  list with a matcher that holds, in the order of registration; a connection no list
  matches is closed (\<open>None\<close>).
\<close>

fun cmux_serve :: "(Matcher list \<times> SubListener) list \<Rightarrow> Conn \<Rightarrow> SubListener option" where
  "cmux_serve [] c = None"
| "cmux_serve ((ms, l) # sls) c =
     (if list_ex (\<lambda>m. matches m c) ms then Some l else cmux_serve sls c)"

text \<open>The matchers \<open>startImprobableHandler\<close> registers on \<open>mux\<close>, in its order.\<close>

definition startImprobableHandler_mux :: "(Matcher list \<times> SubListener) list" where
  "startImprobableHandler_mux =
     [([HTTP2MatchHeaderFieldSendSettings ''content-type'' ''application/grpc''], grpcListener),
      ([HTTP2MatchHeaderFieldSendSettings ''content-type'' ''application/grpc-web''],
       grpcWebListener),
      ([Any], httpListener)]"

section \<open>The HTTP servers\<close>

text \<open>
  The timeouts of an \<open>http.Server\<close> are durations in nanoseconds; zero means no
  timeout. \<open>http.ListenAndServe(addr, handler)\<close> serves with a server that has the
  address and the handler and every other field zero.
\<close>

record HttpServer =
  ServerAddr :: string
  ReadTimeout :: int
  ReadHeaderTimeout :: int
  WriteTimeout :: int
  IdleTimeout :: int

definition Second :: int where
  "Second = 1000000000"

definition http_ListenAndServe_server :: "string \<Rightarrow> HttpServer" where
  "http_ListenAndServe_server addr =
     \<lparr>ServerAddr = addr, ReadTimeout = 0, ReadHeaderTimeout = 0, WriteTimeout = 0,
      IdleTimeout = 0\<rparr>"

text \<open>The handlers of the front door's \<open>http.ServeMux\<close>, by pattern.\<close>

datatype FrontHandler = PluginsServiceHandler | HealthHandler | ProxyToImprobable int

text \<open>What the start of the server does that outlives a call, in order.\<close>

datatype Event =
  NetListen string
| GoServeGrpc SubListener
| GoServeHttp HttpServer SubListener
| GoServeCMux "(Matcher list \<times> SubListener) list"
| Warning string
| Infof string
| ListenAndServe HttpServer "(string \<times> FrontHandler) list"
| Fatalf string
| Cancel

section \<open>The improbable gRPC server\<close>

record GatewayHandlerArgs =
  Mux :: ServeMux
  Addr :: string
  WithInsecureCredentials :: bool

text \<open>
  \<open>createImprobableGRPCServer\<close>: the server with the logging interceptor and the
  reflection service, the gateway arguments, and the listener that \<open>net.Listen\<close>
  bound on an ephemeral port (its address).
\<close>

definition createImprobableGRPCServer ::
  "Env \<Rightarrow> string \<Rightarrow> Event list
     \<Rightarrow> (string + (GrpcServer \<times> GatewayHandlerArgs \<times> string)) \<times> Event list" where
  "createImprobableGRPCServer env listenAddr tr =
     (let grpcSrv = \<lparr>chainUnaryInts = [LogRequest], services = [ServerReflection]\<rparr>
      in case gatewayMux env of
           Inl err \<Rightarrow> (Inl err, tr)
         | Inr gw \<Rightarrow>
      (case netListen env of
           Inl err \<Rightarrow> (Inl err, tr)
         | Inr listenerCMux \<Rightarrow>
             (Inr (grpcSrv,
                   \<lparr>Mux = gw, Addr = listenAddr, WithInsecureCredentials = True\<rparr>,
                   listenerCMux),
              tr @ [NetListen listenerCMux])))"

section \<open>Registration of the core services\<close>

text \<open>
  The three \<open>register...\<close> functions change the server and the gateway mux they are
  given through pointers, so the model returns both along with the error.
\<close>

definition registerPackagesServiceServer ::
  "Env \<Rightarrow> GrpcServer \<Rightarrow> PluginsServer \<Rightarrow> GatewayHandlerArgs
     \<Rightarrow> string option \<times> GrpcServer \<times> GatewayHandlerArgs" where
  "registerPackagesServiceServer env grpcSrv pluginsServer gwArgs =
     (let packagingPlugins = GetPluginsSatisfyingInterface pluginsServer PackagesServiceServer
      in case NewPackagesServer (unusablePackagesPlugin env) packagingPlugins of
           Inl err \<Rightarrow>
             (Some (''failed to create core.packages.v1alpha1 server: '' @ err), grpcSrv, gwArgs)
         | Inr packagesServer \<Rightarrow>
      (let grpcSrv = grpcSrv\<lparr>services := services grpcSrv @ [packagesServer]\<rparr>
       in case registerPackagesHandlerError env of
            Some err \<Rightarrow>
              (Some (''failed to register core.packages handler for gateway: '' @ err),
               grpcSrv, gwArgs)
          | None \<Rightarrow>
              (None, grpcSrv,
               gwArgs\<lparr>Mux := (Mux gwArgs)\<lparr>endpoints :=
                  endpoints (Mux gwArgs) @ [''PackagesService'']\<rparr>\<rparr>)))"

definition registerRepositoriesServiceServer ::
  "Env \<Rightarrow> GrpcServer \<Rightarrow> PluginsServer \<Rightarrow> GatewayHandlerArgs
     \<Rightarrow> string option \<times> GrpcServer \<times> GatewayHandlerArgs" where
  "registerRepositoriesServiceServer env grpcSrv pluginsServer gwArgs =
     (let repositoriesPlugins =
            GetPluginsSatisfyingInterface pluginsServer RepositoriesServiceServer
      in case NewRepositoriesServer (unusableRepositoriesPlugin env) repositoriesPlugins of
           Inl err \<Rightarrow>
             (Some (''failed to create core.packages.v1alpha1 server: '' @ err), grpcSrv, gwArgs)
         | Inr repoServer \<Rightarrow>
      (let grpcSrv = grpcSrv\<lparr>services := services grpcSrv @ [repoServer]\<rparr>
       in case registerRepositoriesHandlerError env of
            Some err \<Rightarrow>
              (Some (''failed to register core.packages handler for gateway: '' @ err),
               grpcSrv, gwArgs)
          | None \<Rightarrow>
              (None, grpcSrv,
               gwArgs\<lparr>Mux := (Mux gwArgs)\<lparr>endpoints :=
                  endpoints (Mux gwArgs) @ [''RepositoriesService'']\<rparr>\<rparr>)))"

definition registerPluginsServiceServer ::
  "Env \<Rightarrow> (string \<times> FrontHandler) list \<Rightarrow> PluginsServer \<Rightarrow> GatewayHandlerArgs
     \<Rightarrow> string option \<times> (string \<times> FrontHandler) list \<times> GatewayHandlerArgs" where
  "registerPluginsServiceServer env mux pluginsServer gwArgs =
     (let mux = mux @ [(''/kubeappsapis.core.plugins.v1alpha1.PluginsService/'',
                        PluginsServiceHandler)]
      in case registerPluginsHandlerError env of
           Some err \<Rightarrow>
             (Some (''failed to register core.plugins handler for gateway: '' @ err), mux, gwArgs)
         | None \<Rightarrow>
             (None, mux,
              gwArgs\<lparr>Mux := (Mux gwArgs)\<lparr>endpoints :=
                 endpoints (Mux gwArgs) @ [''PluginsService'']\<rparr>\<rparr>))"

section \<open>The start of the serve loops\<close>

definition startImprobableHandler ::
  "Env \<Rightarrow> PluginsServer \<Rightarrow> string \<Rightarrow> GrpcServer \<Rightarrow> GatewayHandlerArgs \<Rightarrow> Event list
     \<Rightarrow> (string + int) \<times> Event list" where
  "startImprobableHandler env pluginsServer listenerCMux grpcSrv gwArgs tr =
     (case registerPackagesServiceServer env grpcSrv pluginsServer gwArgs of
        (Some err, grpcSrv, gwArgs) \<Rightarrow> (Inl err, tr)
      | (None, grpcSrv, gwArgs) \<Rightarrow>
     (case registerRepositoriesServiceServer env grpcSrv pluginsServer gwArgs of
        (Some err, grpcSrv, gwArgs) \<Rightarrow> (Inl err, tr)
      | (None, grpcSrv, gwArgs) \<Rightarrow>
     (let mux = startImprobableHandler_mux;
          httpSrv = \<lparr>ServerAddr = [], ReadTimeout = 0, ReadHeaderTimeout = 60 * Second,
                     WriteTimeout = 0, IdleTimeout = 0\<rparr>;
          tr = tr @ [GoServeGrpc grpcListener, GoServeGrpc grpcWebListener,
                     GoServeHttp httpSrv httpListener, GoServeCMux mux];
          parts = SplitAfter listenerCMux CHR '':''
      in case Atoi (last parts) of
           Inl err \<Rightarrow> (Inl err, tr)
         | Inr port \<Rightarrow> (Inr port, tr))))"

section \<open>Serve\<close>

record ServeOptions =
  Port :: int
  UnsafeLocalDevKubeconfig :: bool

text \<open>
  How a call of \<open>Serve\<close> ends: it returns an error or \<open>nil\<close>, or \<open>klogv2.Fatalf\<close>
  ends the process, or \<open>http.ListenAndServe\<close> keeps serving and \<open>Serve\<close> never
  returns.
\<close>

datatype Outcome = Returns "string option" | Exits | Serving

definition Serve_body :: "Env \<Rightarrow> ServeOptions \<Rightarrow> Outcome \<times> Event list" where
  "Serve_body env serveOpts =
     (let listenAddr = '':'' @ Sprintf_d (Port serveOpts)
      in case createImprobableGRPCServer env listenAddr [] of
           (Inl err, tr) \<Rightarrow> (Returns (Some (''failed to create gRPC server: '' @ err)), tr)
         | (Inr (grpcSrv, gwArgs, listenerCMux), tr) \<Rightarrow>
      (let mux_connect = []
       in case newPluginsServer env of
            Inl err \<Rightarrow> (Returns (Some (''failed to initialize plugins server: '' @ err)), tr)
          | Inr pluginsServer \<Rightarrow>
      (case registerPluginsServiceServer env mux_connect pluginsServer gwArgs of
            (Some err, mux_connect, gwArgs) \<Rightarrow>
              (Returns (Some (''failed to register plugins server: '' @ err)), tr)
          | (None, mux_connect, gwArgs) \<Rightarrow>
      (let mux_connect = mux_connect @ [(''/grpc.health.v1.Health/'', HealthHandler)]
       in case startImprobableHandler env pluginsServer listenerCMux grpcSrv gwArgs tr of
            (Inl err, tr) \<Rightarrow> (Returns (Some err), tr)
          | (Inr port, tr) \<Rightarrow>
      (let tr = (if UnsafeLocalDevKubeconfig serveOpts
                 then tr @ [Warning ''Using the local Kubeconfig file'']
                 else tr);
           mux_connect = mux_connect @ [(''/'', ProxyToImprobable port)];
           tr = tr @ [Infof (''Starting server on '' @ listenAddr),
                      ListenAndServe (http_ListenAndServe_server listenAddr) mux_connect]
       in case listenAndServeError env of
            Some err \<Rightarrow> (Exits, tr @ [Fatalf (''failed to server: '' @ err)])
          | None \<Rightarrow> (Serving, tr))))))"

text \<open>\<open>defer cancel()\<close>: the context is cancelled when \<open>Serve\<close> returns.\<close>

definition Serve :: "Env \<Rightarrow> ServeOptions \<Rightarrow> Outcome \<times> Event list" where
  "Serve env serveOpts =
     (case Serve_body env serveOpts of
        (Returns err, tr) \<Rightarrow> (Returns err, tr @ [Cancel])
      | (Exits, tr) \<Rightarrow> (Exits, tr)
      | (Serving, tr) \<Rightarrow> (Serving, tr))"

text \<open>The events that are a serve loop or the front door taking connections.\<close>

fun serving :: "Event \<Rightarrow> bool" where
  "serving (GoServeGrpc l) = True"
| "serving (GoServeHttp srv l) = True"
| "serving (GoServeCMux mux) = True"
| "serving (ListenAndServe srv mux) = True"
| "serving e = False"

text \<open>
  The descriptions \<open>Serve\<close> and the functions it calls put in front of the error of
  a failed step.
\<close>

definition descriptions :: "string list" where
  "descriptions =
     [''failed to create gRPC server: '',
      ''failed to initialize plugins server: '',
      ''failed to register plugins server: '',
      ''failed to create core.packages.v1alpha1 server: '',
      ''failed to register core.packages handler for gateway: '']"

text \<open>
  A failure of a bootstrap step: of the construction of the gateway or of the
  listener, of the construction or the registration of the plugins service, or of the
  construction or the registration of the packages or the repositories service.
\<close>

definition bootstrap_failure :: "Env \<Rightarrow> bool" where
  "bootstrap_failure env \<longleftrightarrow>
     isl (gatewayMux env) \<or> isl (netListen env) \<or> isl (newPluginsServer env)
     \<or> registerPluginsHandlerError env \<noteq> None
     \<or> (case newPluginsServer env of
          Inl err \<Rightarrow> False
        | Inr pluginsServer \<Rightarrow>
            isl (NewPackagesServer (unusablePackagesPlugin env)
                  (GetPluginsSatisfyingInterface pluginsServer PackagesServiceServer))
            \<or> isl (NewRepositoriesServer (unusableRepositoriesPlugin env)
                  (GetPluginsSatisfyingInterface pluginsServer RepositoriesServiceServer)))
     \<or> registerPackagesHandlerError env \<noteq> None
     \<or> registerRepositoriesHandlerError env \<noteq> None"

text \<open>
  The method of a full method string \<open>/package.service/method\<close>: what follows the
  last slash.
\<close>

definition method_name :: "string \<Rightarrow> string" where
  "method_name full = last (SplitAfter full CHR ''/'')"

section \<open>A start of the server with three plugins\<close>

definition helm :: PluginHandle where
  "helm = \<lparr>plugin_name = ''helm.packages'',
            capabilities = {PackagesServiceServer, RepositoriesServiceServer}\<rparr>"

definition kapp :: PluginHandle where
  "kapp = \<lparr>plugin_name = ''kapp_controller.packages'',
            capabilities = {PackagesServiceServer}\<rparr>"

definition resources :: PluginHandle where
  "resources = \<lparr>plugin_name = ''resources'', capabilities = {}\<rparr>"

definition env0 :: Env where
  "env0 =
     \<lparr>handlePathError = (\<lambda>pattern. None),
      inClusterConfigError = None,
      newForConfigError = None,
      netListen = Inr ''[::]:34567'',
      newPluginsServer = Inr \<lparr>pluginsWithServers = [helm, resources, kapp]\<rparr>,
      unusablePackagesPlugin = (\<lambda>p. None),
      unusableRepositoriesPlugin = (\<lambda>p. None),
      registerPluginsHandlerError = None,
      registerPackagesHandlerError = None,
      registerRepositoriesHandlerError = None,
      listenAndServeError = None\<rparr>"

definition serveOpts0 :: ServeOptions where
  "serveOpts0 = \<lparr>Port = 8080, UnsafeLocalDevKubeconfig = False\<rparr>"

definition gw0 :: ServeMux where
  "gw0 =
     \<lparr>marshalers = [(MIMEWildcard, \<lparr>MarshalOptions = \<lparr>EmitUnpopulated = False\<rparr>,
                                     UnmarshalOptions = \<lparr>DiscardUnknown = True\<rparr>\<rparr>)],
      paths = [(''GET'', ''/openapi.json''), (''GET'', ''/docs''),
               (''GET'', ''/operators/namespaces/{namespace}/operator/{name}/logo'')],
      endpoints = []\<rparr>"

definition grpcSrv0 :: GrpcServer where
  "grpcSrv0 = \<lparr>chainUnaryInts = [LogRequest], services = [ServerReflection]\<rparr>"

definition gwArgs0 :: GatewayHandlerArgs where
  "gwArgs0 = \<lparr>Mux = gw0, Addr = '':8080'', WithInsecureCredentials = True\<rparr>"

section \<open>Substring search\<close>

lemma HasPrefix_iff: "HasPrefix s p \<longleftrightarrow> (\<exists>t. s = p @ t)"
  by (induction s p rule: HasPrefix.induct) auto

lemma Contains_iff: "Contains s substr \<longleftrightarrow> (\<exists>pre post. s = pre @ substr @ post)"
proof (induction s)
  case Nil
  show ?case by auto
next
  case (Cons c s)
  show ?case
  proof
    assume "Contains (c # s) substr"
    then consider "HasPrefix (c # s) substr" | "Contains s substr" by auto
    then show "\<exists>pre post. c # s = pre @ substr @ post"
    proof cases
      case 1
      then obtain t where "c # s = substr @ t" by (auto simp: HasPrefix_iff)
      then have "c # s = [] @ substr @ t" by simp
      then show ?thesis by blast
    next
      case 2
      then obtain pre post where "s = pre @ substr @ post" using Cons.IH by auto
      then have "c # s = (c # pre) @ substr @ post" by simp
      then show ?thesis by blast
    qed
  next
    assume "\<exists>pre post. c # s = pre @ substr @ post"
    then obtain pre post where eq: "c # s = pre @ substr @ post" by auto
    show "Contains (c # s) substr"
    proof (cases pre)
      case Nil
      with eq have "HasPrefix (c # s) substr" by (auto simp: HasPrefix_iff)
      then show ?thesis by simp
    next
      case (Cons d pre')
      with eq have "s = pre' @ substr @ post" by simp
      then have "Contains s substr" using Cons.IH by blast
      then show ?thesis by simp
    qed
  qed
qed

section \<open>Log level\<close>

lemma getLogLevelOfEndpoint_Contains:
  "getLogLevelOfEndpoint endpoint = (if Contains endpoint ''GetConfiguredPlugins'' then 4 else 3)"
    by (simp add: getLogLevelOfEndpoint_def suppressLoggingOfEndpoints_def
        getLogLevelOfEndpoint_loop.simps [of _ _ 0]
        getLogLevelOfEndpoint_loop.simps [of _ _ "Suc 0"])

text \<open>
  Claim C9. The log-suppression check is substring containment: an endpoint whose
  full method name has \<open>GetConfiguredPlugins\<close> anywhere within it gets verbosity
  level 4, every other endpoint gets level 3.
\<close>

theorem getLogLevelOfEndpoint_substring:
  "getLogLevelOfEndpoint endpoint =
     (if (\<exists>pre post. endpoint = pre @ ''GetConfiguredPlugins'' @ post) then 4 else 3)"
  by (simp only: getLogLevelOfEndpoint_Contains Contains_iff)

theorem getLogLevelOfEndpoint_substring_witness:
  "getLogLevelOfEndpoint
     ''/kubeappsapis.core.plugins.v1alpha1.PluginsService/GetConfiguredPlugins'' = 4
   \<and> getLogLevelOfEndpoint ''/x.Svc/GetConfiguredPluginsTwice'' = 4
   \<and> getLogLevelOfEndpoint [] = 3"
proof -
  have a: "\<exists>pre post.
      ''/kubeappsapis.core.plugins.v1alpha1.PluginsService/GetConfiguredPlugins''
        = pre @ ''GetConfiguredPlugins'' @ post"
    by (rule exI [of _ "''/kubeappsapis.core.plugins.v1alpha1.PluginsService/''"],
        rule exI [of _ "[]"]) simp
  have b: "\<exists>pre post. ''/x.Svc/GetConfiguredPluginsTwice''
        = pre @ ''GetConfiguredPlugins'' @ post"
    by (rule exI [of _ "''/x.Svc/''"], rule exI [of _ "''Twice''"]) simp
  have c: "\<not> (\<exists>pre post. ([]::string) = pre @ ''GetConfiguredPlugins'' @ post)"
    by simp
  show ?thesis
    using getLogLevelOfEndpoint_substring
      [of "''/kubeappsapis.core.plugins.v1alpha1.PluginsService/GetConfiguredPlugins''"]
      getLogLevelOfEndpoint_substring [of "''/x.Svc/GetConfiguredPluginsTwice''"]
      getLogLevelOfEndpoint_substring [of "[]"] a b c
    by presburger
qed

section \<open>Transport bridge\<close>

lemma decimal_34567: "decimal 34567 = ''34567''"
  by (simp add: decimal.simps [of 34567] decimal.simps [of 3456] decimal.simps [of 345]
      decimal.simps [of 34] decimal.simps [of 3] digit_char_def)

text \<open>
  Claim C3. The handler chooses the reverse proxy by the request's protocol major
  version alone: major version 2 is served by the proxy with the h2c transport, every
  other major version by the proxy with the default HTTP/1.1 transport.
\<close>

theorem createProxyToImprobableHandler_transport:
  "via (createProxyToImprobableHandler port r) =
     (if ProtoMajor r = 2 then H2cTransport else DefaultTransport)
   \<and> (ProtoMajor r = ProtoMajor r' \<longrightarrow>
        via (createProxyToImprobableHandler port r) =
        via (createProxyToImprobableHandler port r'))"
  by (simp add: createProxyToImprobableHandler_def ServeHTTP_def h2cProxy_def http1Proxy_def)

theorem createProxyToImprobableHandler_transport_witness:
  "via (createProxyToImprobableHandler 34567
      \<lparr>Method = ''POST'', URL = \<lparr>Scheme = [], Host = [], Path = ''/a.B/C'', RawQuery = []\<rparr>,
       ProtoMajor = 2, ProtoMinor = 0, Header = [], Body = []\<rparr>) = H2cTransport
   \<and> via (createProxyToImprobableHandler 34567
      \<lparr>Method = ''GET'', URL = \<lparr>Scheme = [], Host = [], Path = ''/docs'', RawQuery = []\<rparr>,
       ProtoMajor = 1, ProtoMinor = 1, Header = [], Body = []\<rparr>) = DefaultTransport
   \<and> via (createProxyToImprobableHandler 34567
      \<lparr>Method = ''GET'', URL = \<lparr>Scheme = [], Host = [], Path = ''/docs'', RawQuery = []\<rparr>,
       ProtoMajor = 1, ProtoMinor = 1, Header = [], Body = []\<rparr>)
     = via (createProxyToImprobableHandler 34567
      \<lparr>Method = ''PUT'', URL = \<lparr>Scheme = [], Host = [], Path = ''/x'', RawQuery = []\<rparr>,
       ProtoMajor = 1, ProtoMinor = 0, Header = [], Body = ''b''\<rparr>)"
  using createProxyToImprobableHandler_transport [of 34567
      "\<lparr>Method = ''POST'', URL = \<lparr>Scheme = [], Host = [], Path = ''/a.B/C'', RawQuery = []\<rparr>,
       ProtoMajor = 2, ProtoMinor = 0, Header = [], Body = []\<rparr>"
      "\<lparr>Method = ''POST'', URL = \<lparr>Scheme = [], Host = [], Path = ''/a.B/C'', RawQuery = []\<rparr>,
       ProtoMajor = 2, ProtoMinor = 0, Header = [], Body = []\<rparr>"]
    createProxyToImprobableHandler_transport [of 34567
      "\<lparr>Method = ''GET'', URL = \<lparr>Scheme = [], Host = [], Path = ''/docs'', RawQuery = []\<rparr>,
       ProtoMajor = 1, ProtoMinor = 1, Header = [], Body = []\<rparr>"
      "\<lparr>Method = ''PUT'', URL = \<lparr>Scheme = [], Host = [], Path = ''/x'', RawQuery = []\<rparr>,
       ProtoMajor = 1, ProtoMinor = 0, Header = [], Body = ''b''\<rparr>"]
  by auto

text \<open>
  Claim C4. The rewrite done by either proxy's director sets the URL scheme to
  \<open>http\<close> and the URL host to \<open>127.0.0.1:<port>\<close>; the path, the query, the method,
  the protocol version, the headers and the body of the request are what they were.
\<close>

theorem Director_rewrites_scheme_and_host_only:
  "p \<in> {h2cProxy port, http1Proxy port} \<Longrightarrow>
     Scheme (URL (Director p r)) = ''http''
   \<and> Host (URL (Director p r)) = ''127.0.0.1:'' @ Sprintf_d port
   \<and> Path (URL (Director p r)) = Path (URL r)
   \<and> RawQuery (URL (Director p r)) = RawQuery (URL r)
   \<and> Method (Director p r) = Method r
   \<and> ProtoMajor (Director p r) = ProtoMajor r
   \<and> ProtoMinor (Director p r) = ProtoMinor r
   \<and> Header (Director p r) = Header r
   \<and> Body (Director p r) = Body r
   \<and> outreq (createProxyToImprobableHandler port r) = Director p r"
  by (auto simp: h2cProxy_def http1Proxy_def createProxyToImprobableHandler_def ServeHTTP_def)

theorem Director_rewrites_scheme_and_host_only_witness:
  "Director (h2cProxy 34567)
      \<lparr>Method = ''POST'',
       URL = \<lparr>Scheme = ''https'', Host = ''kubeapps.example'', Path = ''/a.B/C'', RawQuery = ''x=1''\<rparr>,
       ProtoMajor = 2, ProtoMinor = 0,
       Header = [(''Content-Type'', [''application/grpc''])], Body = ''payload''\<rparr>
   = \<lparr>Method = ''POST'',
       URL = \<lparr>Scheme = ''http'', Host = ''127.0.0.1:34567'', Path = ''/a.B/C'', RawQuery = ''x=1''\<rparr>,
       ProtoMajor = 2, ProtoMinor = 0,
       Header = [(''Content-Type'', [''application/grpc''])], Body = ''payload''\<rparr>"
proof -
  have mem: "h2cProxy 34567 \<in> {h2cProxy 34567, http1Proxy 34567}" by simp
  have port: "Sprintf_d 34567 = ''34567''"
    by (simp add: Sprintf_d_def decimal_34567)
  show ?thesis
    using Director_rewrites_scheme_and_host_only [OF mem, of
      "\<lparr>Method = ''POST'',
       URL = \<lparr>Scheme = ''https'', Host = ''kubeapps.example'', Path = ''/a.B/C'', RawQuery = ''x=1''\<rparr>,
       ProtoMajor = 2, ProtoMinor = 0,
       Header = [(''Content-Type'', [''application/grpc''])], Body = ''payload''\<rparr>"] port
    by (intro Request.equality Url.equality) simp_all
qed

section \<open>The connection multiplexer\<close>

text \<open>
  Claim C2. A connection whose HTTP/2 header block has the content type
  \<open>application/grpc\<close> exactly goes to the gRPC listener; otherwise one with
  \<open>application/grpc-web\<close> exactly goes to the gRPC-web listener; every other
  connection goes to the HTTP listener. Every connection gets a listener, and one only.
\<close>

theorem cmux_serve_classification:
  "cmux_serve startImprobableHandler_mux c =
     Some (if (\<exists>hs. http2_fields c = Some hs \<and> (''content-type'', ''application/grpc'') \<in> set hs)
           then grpcListener
           else if (\<exists>hs. http2_fields c = Some hs
                      \<and> (''content-type'', ''application/grpc-web'') \<in> set hs)
           then grpcWebListener
           else httpListener)"
  by (cases "http2_fields c") (simp_all add: startImprobableHandler_mux_def)

section \<open>The gateway's marshaler\<close>

lemma HandlePath_marshalers:
  "HandlePath env mux meth pattern = Inr mux' \<Longrightarrow> marshalers mux' = marshalers mux"
  by (auto simp: HandlePath_def split: option.splits)

lemma gatewayMux_marshalers:
  assumes "gatewayMux env = Inr gw"
  shows "marshalers gw =
           [(MIMEWildcard, \<lparr>MarshalOptions = \<lparr>EmitUnpopulated = False\<rparr>,
                            UnmarshalOptions = \<lparr>DiscardUnknown = True\<rparr>\<rparr>)]"
  using assms
  by (auto simp: gatewayMux_def Let_def split: sum.splits option.splits
      dest!: HandlePath_marshalers)

lemma Marshal_omits_unpopulated:
  "\<not> EmitUnpopulated opts \<Longrightarrow>
     Marshal opts msg =
       List.map_filter (\<lambda>(n, fv). case fv of Populated v \<Rightarrow> Some (n, v) | Unpopulated z \<Rightarrow> None) msg"
  by (induction opts msg rule: Marshal.induct) (simp_all add: List.map_filter_simps)

lemma Unmarshal_discards_unknown:
  "DiscardUnknown opts \<Longrightarrow>
     Unmarshal opts known members = Inr (filter (\<lambda>(n, v). n \<in> set known) members)"
  by (induction opts known members rule: Unmarshal.induct) simp_all

text \<open>
  Claim C5. The gateway mux that \<open>gatewayMux\<close> returns has, for every MIME type,
  a marshaler with \<open>EmitUnpopulated\<close> off and \<open>DiscardUnknown\<close> on: the JSON of
  a response has the populated fields only, and reading a request body never fails
  on a member the message does not have, which is left out.
\<close>

theorem gatewayMux_marshaler:
  assumes "gatewayMux env = Inr gw"
  shows "\<exists>m. MarshalerForMIME gw mime = Some m
      \<and> \<not> EmitUnpopulated (MarshalOptions m) \<and> DiscardUnknown (UnmarshalOptions m)
      \<and> Marshal (MarshalOptions m) msg =
          List.map_filter (\<lambda>(n, fv). case fv of Populated v \<Rightarrow> Some (n, v) | Unpopulated z \<Rightarrow> None) msg
      \<and> Unmarshal (UnmarshalOptions m) known members = Inr (filter (\<lambda>(n, v). n \<in> set known) members)"
proof -
  let ?m = "\<lparr>MarshalOptions = \<lparr>EmitUnpopulated = False\<rparr>,
             UnmarshalOptions = \<lparr>DiscardUnknown = True\<rparr>\<rparr>"
  have "MarshalerForMIME gw mime = Some ?m"
    by (simp add: MarshalerForMIME_def gatewayMux_marshalers [OF assms])
  moreover have "Marshal (MarshalOptions ?m) msg =
      List.map_filter (\<lambda>(n, fv). case fv of Populated v \<Rightarrow> Some (n, v) | Unpopulated z \<Rightarrow> None) msg"
    by (rule Marshal_omits_unpopulated) simp
  moreover have "Unmarshal (UnmarshalOptions ?m) known members =
      Inr (filter (\<lambda>(n, v). n \<in> set known) members)"
    by (rule Unmarshal_discards_unknown) simp
  ultimately show ?thesis by simp
qed

section \<open>The capability router\<close>

lemma satisfying_filter: "satisfying c ps = filter (\<lambda>p. c \<in> capabilities p) ps"
  by (induction ps) simp_all

text \<open>
  Claim C1. The query returns the plugins whose capabilities include the contract,
  in the order of the plugin list, and the empty list when there is none; with the
  empty list the packages and the repositories service are built and registered as
  services without plugins, and the registration returns no error.
\<close>

theorem capability_router:
  "GetPluginsSatisfyingInterface s c = filter (\<lambda>p. c \<in> capabilities p) (pluginsWithServers s)
   \<and> ((\<forall>p \<in> set (pluginsWithServers s). c \<notin> capabilities p) \<longrightarrow>
        GetPluginsSatisfyingInterface s c = [])
   \<and> ((\<forall>p \<in> set (pluginsWithServers s). PackagesServiceServer \<notin> capabilities p)
        \<and> registerPackagesHandlerError env = None \<longrightarrow>
        fst (registerPackagesServiceServer env grpcSrv s gwArgs) = None
        \<and> fst (snd (registerPackagesServiceServer env grpcSrv s gwArgs)) =
            grpcSrv\<lparr>services := services grpcSrv @ [PackagesService []]\<rparr>)
   \<and> ((\<forall>p \<in> set (pluginsWithServers s). RepositoriesServiceServer \<notin> capabilities p)
        \<and> registerRepositoriesHandlerError env = None \<longrightarrow>
        fst (registerRepositoriesServiceServer env grpcSrv s gwArgs) = None
        \<and> fst (snd (registerRepositoriesServiceServer env grpcSrv s gwArgs)) =
            grpcSrv\<lparr>services := services grpcSrv @ [RepositoriesService []]\<rparr>)"
proof -
  have f: "\<And>c. GetPluginsSatisfyingInterface s c =
             filter (\<lambda>p. c \<in> capabilities p) (pluginsWithServers s)"
    by (simp add: GetPluginsSatisfyingInterface_def satisfying_filter)
  have e: "\<And>c. (\<forall>p \<in> set (pluginsWithServers s). c \<notin> capabilities p) \<Longrightarrow>
             GetPluginsSatisfyingInterface s c = []"
    by (simp add: f filter_empty_conv)
  show ?thesis
    by (simp add: f [symmetric] e registerPackagesServiceServer_def
        registerRepositoriesServiceServer_def NewPackagesServer_def NewRepositoriesServer_def)
qed

section \<open>Failures while the server starts\<close>

lemma createImprobableGRPCServer_Inl:
  "createImprobableGRPCServer env a tr = (Inl err, tr') \<Longrightarrow>
     tr' = tr \<and> (isl (gatewayMux env) \<or> isl (netListen env))"
  by (auto simp: createImprobableGRPCServer_def split: sum.splits)

lemma createImprobableGRPCServer_Inr:
  "createImprobableGRPCServer env a tr = (Inr (grpcSrv, gwArgs, l), tr') \<Longrightarrow>
     tr' = tr @ [NetListen l] \<and> netListen env = Inr l \<and> gatewayMux env = Inr (Mux gwArgs)"
  by (auto simp: createImprobableGRPCServer_def split: sum.splits)

lemma registerPackagesServiceServer_None:
  "registerPackagesServiceServer env grpcSrv ps gwArgs = (None, grpcSrv', gwArgs') \<Longrightarrow>
     registerPackagesHandlerError env = None
     \<and> \<not> isl (NewPackagesServer (unusablePackagesPlugin env)
                  (GetPluginsSatisfyingInterface ps PackagesServiceServer))"
  by (auto simp: registerPackagesServiceServer_def Let_def split: sum.splits option.splits)

lemma registerPackagesServiceServer_Some:
  "registerPackagesServiceServer env grpcSrv ps gwArgs = (Some err, grpcSrv', gwArgs') \<Longrightarrow>
     (\<exists>cause. err = ''failed to create core.packages.v1alpha1 server: '' @ cause)
     \<or> (\<exists>cause. err = ''failed to register core.packages handler for gateway: '' @ cause)"
  by (auto simp: registerPackagesServiceServer_def Let_def split: sum.splits option.splits)

lemma registerRepositoriesServiceServer_None:
  "registerRepositoriesServiceServer env grpcSrv ps gwArgs = (None, grpcSrv', gwArgs') \<Longrightarrow>
     registerRepositoriesHandlerError env = None
     \<and> \<not> isl (NewRepositoriesServer (unusableRepositoriesPlugin env)
                  (GetPluginsSatisfyingInterface ps RepositoriesServiceServer))"
  by (auto simp: registerRepositoriesServiceServer_def Let_def split: sum.splits option.splits)

lemma registerRepositoriesServiceServer_Some:
  "registerRepositoriesServiceServer env grpcSrv ps gwArgs = (Some err, grpcSrv', gwArgs') \<Longrightarrow>
     (\<exists>cause. err = ''failed to create core.packages.v1alpha1 server: '' @ cause)
     \<or> (\<exists>cause. err = ''failed to register core.packages handler for gateway: '' @ cause)"
  by (auto simp: registerRepositoriesServiceServer_def Let_def split: sum.splits option.splits)

lemma startImprobableHandler_Inl:
  assumes "startImprobableHandler env ps l grpcSrv gwArgs tr = (Inl err, tr')"
      and "registerPackagesHandlerError env \<noteq> None
           \<or> registerRepositoriesHandlerError env \<noteq> None
           \<or> isl (NewPackagesServer (unusablePackagesPlugin env)
                  (GetPluginsSatisfyingInterface ps PackagesServiceServer))
           \<or> isl (NewRepositoriesServer (unusableRepositoriesPlugin env)
                  (GetPluginsSatisfyingInterface ps RepositoriesServiceServer))"
  shows "tr' = tr \<and>
     ((\<exists>cause. err = ''failed to create core.packages.v1alpha1 server: '' @ cause)
      \<or> (\<exists>cause. err = ''failed to register core.packages handler for gateway: '' @ cause))"
  using assms
  unfolding startImprobableHandler_def
  by (auto split: prod.splits option.splits sum.splits
      dest: registerPackagesServiceServer_None registerRepositoriesServiceServer_None
        registerPackagesServiceServer_Some registerRepositoriesServiceServer_Some)

lemma startImprobableHandler_Inr:
  assumes "startImprobableHandler env ps l grpcSrv gwArgs tr = (Inr port, tr')"
  shows "registerPackagesHandlerError env = None
           \<and> registerRepositoriesHandlerError env = None
           \<and> \<not> isl (NewPackagesServer (unusablePackagesPlugin env)
                  (GetPluginsSatisfyingInterface ps PackagesServiceServer))
           \<and> \<not> isl (NewRepositoriesServer (unusableRepositoriesPlugin env)
                  (GetPluginsSatisfyingInterface ps RepositoriesServiceServer))"
  using assms
  unfolding startImprobableHandler_def
  by (auto split: prod.splits option.splits sum.splits
      dest: registerPackagesServiceServer_None registerRepositoriesServiceServer_None)


lemma Serve_body_create_fails:
  assumes "createImprobableGRPCServer env ('':'' @ Sprintf_d (Port serveOpts)) [] = (Inl err, tr)"
  shows "Serve_body env serveOpts =
           (Returns (Some (''failed to create gRPC server: '' @ err)), tr)"
  unfolding Serve_body_def Let_def
  by (simp only: assms sum.case prod.case)

lemma Serve_body_plugins_fails:
  assumes "createImprobableGRPCServer env ('':'' @ Sprintf_d (Port serveOpts)) [] =
             (Inr (grpcSrv, gwArgs, l), tr)"
      and "newPluginsServer env = Inl err"
  shows "Serve_body env serveOpts =
           (Returns (Some (''failed to initialize plugins server: '' @ err)), tr)"
  unfolding Serve_body_def Let_def
  by (simp only: assms sum.case prod.case)

lemma Serve_body_register_plugins_fails:
  assumes "createImprobableGRPCServer env ('':'' @ Sprintf_d (Port serveOpts)) [] =
             (Inr (grpcSrv, gwArgs, l), tr)"
      and "newPluginsServer env = Inr pluginsServer"
      and "registerPluginsServiceServer env [] pluginsServer gwArgs = (Some err, mux, gwArgs')"
  shows "Serve_body env serveOpts =
           (Returns (Some (''failed to register plugins server: '' @ err)), tr)"
  unfolding Serve_body_def Let_def
  by (simp only: assms sum.case prod.case option.case)

lemma Serve_body_start_fails:
  assumes "createImprobableGRPCServer env ('':'' @ Sprintf_d (Port serveOpts)) [] =
             (Inr (grpcSrv, gwArgs, l), tr)"
      and "newPluginsServer env = Inr pluginsServer"
      and "registerPluginsServiceServer env [] pluginsServer gwArgs = (None, mux, gwArgs')"
      and "startImprobableHandler env pluginsServer l grpcSrv gwArgs' tr = (Inl err, tr')"
  shows "Serve_body env serveOpts = (Returns (Some err), tr')"
  unfolding Serve_body_def Let_def
  by (simp only: assms sum.case prod.case option.case)

lemma Serve_body_started:
  assumes "createImprobableGRPCServer env ('':'' @ Sprintf_d (Port serveOpts)) [] =
             (Inr (grpcSrv, gwArgs, l), tr)"
      and "newPluginsServer env = Inr pluginsServer"
      and "registerPluginsServiceServer env [] pluginsServer gwArgs = (None, mux, gwArgs')"
      and "startImprobableHandler env pluginsServer l grpcSrv gwArgs' tr = (Inr port, tr')"
  shows "Serve_body env serveOpts =
           (case listenAndServeError env of
              Some err \<Rightarrow>
                (Exits,
                 ((if UnsafeLocalDevKubeconfig serveOpts
                   then tr' @ [Warning ''Using the local Kubeconfig file''] else tr')
                  @ [Infof (''Starting server on '' @ '':'' @ Sprintf_d (Port serveOpts)),
                     ListenAndServe
                       (http_ListenAndServe_server ('':'' @ Sprintf_d (Port serveOpts)))
                       ((mux @ [(''/grpc.health.v1.Health/'', HealthHandler)])
                        @ [(''/'', ProxyToImprobable port)])])
                 @ [Fatalf (''failed to server: '' @ err)])
            | None \<Rightarrow>
                (Serving,
                 (if UnsafeLocalDevKubeconfig serveOpts
                  then tr' @ [Warning ''Using the local Kubeconfig file''] else tr')
                 @ [Infof (''Starting server on '' @ '':'' @ Sprintf_d (Port serveOpts)),
                    ListenAndServe
                      (http_ListenAndServe_server ('':'' @ Sprintf_d (Port serveOpts)))
                      ((mux @ [(''/grpc.health.v1.Health/'', HealthHandler)])
                       @ [(''/'', ProxyToImprobable port)])]))"
  unfolding Serve_body_def Let_def
  by (simp only: assms sum.case prod.case option.case)

lemma registerPluginsServiceServer_cases:
  "registerPluginsServiceServer env mux ps gwArgs = (r, mux', gwArgs') \<Longrightarrow>
     (case registerPluginsHandlerError env of
        Some e \<Rightarrow> r = Some (''failed to register core.plugins handler for gateway: '' @ e)
      | None \<Rightarrow> r = None)"
  by (auto simp: registerPluginsServiceServer_def Let_def split: option.splits)

lemma Serve_described:
  assumes "Serve_body env serveOpts = (Returns (Some (d @ cause)), tr)"
      and "d \<in> set descriptions"
      and "list_all (\<lambda>e. \<not> serving e) tr"
  shows "(\<exists>d cause. d \<in> set descriptions
            \<and> fst (Serve env serveOpts) = Returns (Some (d @ cause)))
       \<and> list_all (\<lambda>e. \<not> serving e) (snd (Serve env serveOpts))"
proof -
  have "Serve env serveOpts = (Returns (Some (d @ cause)), tr @ [Cancel])"
    using assms(1) by (simp only: Serve_def prod.case Outcome.case)
  then have "fst (Serve env serveOpts) = Returns (Some (d @ cause))"
    and "snd (Serve env serveOpts) = tr @ [Cancel]"
    by simp_all
  then show ?thesis
    using assms(2,3) by auto
qed

lemma descriptions_mem:
  "''failed to create gRPC server: '' \<in> set descriptions"
  "''failed to initialize plugins server: '' \<in> set descriptions"
  "''failed to register plugins server: '' \<in> set descriptions"
  "''failed to create core.packages.v1alpha1 server: '' \<in> set descriptions"
  "''failed to register core.packages handler for gateway: '' \<in> set descriptions"
  unfolding descriptions_def
  by (simp_all only: list.set insert_iff refl simp_thms)

text \<open>
  Claim C8. When a bootstrap step fails, \<open>Serve\<close> returns an error that starts with
  one of the descriptions, and nothing it did before serves: no serve loop was
  started and \<open>http.ListenAndServe\<close> was not called.
\<close>

theorem Serve_bootstrap_failure:
  assumes "bootstrap_failure env"
  shows "(\<exists>d cause. d \<in> set descriptions
            \<and> fst (Serve env serveOpts) = Returns (Some (d @ cause)))
       \<and> list_all (\<lambda>e. \<not> serving e) (snd (Serve env serveOpts))"
proof -
  define listenAddr where "listenAddr = '':'' @ Sprintf_d (Port serveOpts)"
  obtain r1 tr1 where c: "createImprobableGRPCServer env listenAddr [] = (r1, tr1)"
    by (cases "createImprobableGRPCServer env listenAddr []") auto
  show ?thesis
  proof (cases r1)
    case (Inl err)
    with c have tr1: "tr1 = []"
      by (auto dest: createImprobableGRPCServer_Inl)
    have "createImprobableGRPCServer env ('':'' @ Sprintf_d (Port serveOpts)) [] = (Inl err, [])"
      using c Inl tr1 by (simp only: listenAddr_def)
    then have "Serve_body env serveOpts =
            (Returns (Some (''failed to create gRPC server: '' @ err)), [])"
      by (rule Serve_body_create_fails)
    then show ?thesis
      by (rule Serve_described) (simp_all add: descriptions_mem)
  next
    case (Inr x)
    then obtain grpcSrv gwArgs l where x: "r1 = Inr (grpcSrv, gwArgs, l)"
      by (cases x) auto
    with c have tr1: "tr1 = [NetListen l]" and nl: "netListen env = Inr l"
      and gw: "gatewayMux env = Inr (Mux gwArgs)"
      by (auto dest: createImprobableGRPCServer_Inr)
    have c': "createImprobableGRPCServer env ('':'' @ Sprintf_d (Port serveOpts)) [] =
                (Inr (grpcSrv, gwArgs, l), [NetListen l])"
      using c x tr1 by (simp only: listenAddr_def)
    show ?thesis
    proof (cases "newPluginsServer env")
      case (Inl err)
      have "Serve_body env serveOpts =
              (Returns (Some (''failed to initialize plugins server: '' @ err)), [NetListen l])"
        by (rule Serve_body_plugins_fails [OF c' Inl])
      then show ?thesis
        by (rule Serve_described) (simp_all add: descriptions_mem)
    next
      case ps: (Inr pluginsServer)
      obtain r2 mux2 gwArgs2 where
        rp: "registerPluginsServiceServer env [] pluginsServer gwArgs = (r2, mux2, gwArgs2)"
        by (cases "registerPluginsServiceServer env [] pluginsServer gwArgs") auto
      show ?thesis
      proof (cases r2)
        case (Some err)
        have "registerPluginsServiceServer env [] pluginsServer gwArgs = (Some err, mux2, gwArgs2)"
          using rp Some by (simp only:)
        then have "Serve_body env serveOpts =
              (Returns (Some (''failed to register plugins server: '' @ err)), [NetListen l])"
          by (rule Serve_body_register_plugins_fails [OF c' ps])
        then show ?thesis
          by (rule Serve_described) (simp_all add: descriptions_mem)
      next
        case None
        with rp have rph: "registerPluginsHandlerError env = None"
          by (auto dest!: registerPluginsServiceServer_cases split: option.splits)
        have rp': "registerPluginsServiceServer env [] pluginsServer gwArgs = (None, mux2, gwArgs2)"
          using rp None by (simp only:)
        obtain r3 tr3 where
          st: "startImprobableHandler env pluginsServer l grpcSrv gwArgs2 [NetListen l] = (r3, tr3)"
          by (cases "startImprobableHandler env pluginsServer l grpcSrv gwArgs2 [NetListen l]") auto
        have fail: "registerPackagesHandlerError env \<noteq> None
           \<or> registerRepositoriesHandlerError env \<noteq> None
           \<or> isl (NewPackagesServer (unusablePackagesPlugin env)
                  (GetPluginsSatisfyingInterface pluginsServer PackagesServiceServer))
           \<or> isl (NewRepositoriesServer (unusableRepositoriesPlugin env)
                  (GetPluginsSatisfyingInterface pluginsServer RepositoriesServiceServer))"
          using assms gw nl ps rph by (auto simp: bootstrap_failure_def)
        show ?thesis
        proof (cases r3)
          case (Inl err)
          have st': "startImprobableHandler env pluginsServer l grpcSrv gwArgs2 [NetListen l] =
                       (Inl err, tr3)"
            using st Inl by (simp only:)
          have tr3: "tr3 = [NetListen l]"
            and err: "(\<exists>cause. err = ''failed to create core.packages.v1alpha1 server: '' @ cause)
              \<or> (\<exists>cause. err = ''failed to register core.packages handler for gateway: '' @ cause)"
            using startImprobableHandler_Inl [OF st' fail] by blast+
          have body: "Serve_body env serveOpts = (Returns (Some err), [NetListen l])"
            using Serve_body_start_fails [OF c' ps rp' st'] by (simp only: tr3)
          from err show ?thesis
          proof
            assume "\<exists>cause. err = ''failed to create core.packages.v1alpha1 server: '' @ cause"
            then obtain cause where
              "err = ''failed to create core.packages.v1alpha1 server: '' @ cause" ..
            with body have "Serve_body env serveOpts =
                (Returns (Some (''failed to create core.packages.v1alpha1 server: '' @ cause)),
                 [NetListen l])"
              by (simp only:)
            then show ?thesis
              by (rule Serve_described) (simp_all add: descriptions_mem)
          next
            assume "\<exists>cause. err = ''failed to register core.packages handler for gateway: '' @ cause"
            then obtain cause where
              "err = ''failed to register core.packages handler for gateway: '' @ cause" ..
            with body have "Serve_body env serveOpts =
                (Returns (Some (''failed to register core.packages handler for gateway: '' @ cause)),
                 [NetListen l])"
              by (simp only:)
            then show ?thesis
              by (rule Serve_described) (simp_all add: descriptions_mem)
          qed
        next
          case (Inr port)
          have "startImprobableHandler env pluginsServer l grpcSrv gwArgs2 [NetListen l] =
                       (Inr port, tr3)"
            using st Inr by (simp only:)
          from startImprobableHandler_Inr [OF this] fail show ?thesis
            by blast
        qed
      qed
    qed
  qed
qed

lemma gatewayMux_cluster_error:
  assumes "inClusterConfigError env \<noteq> None \<or> newForConfigError env \<noteq> None"
  shows "isl (gatewayMux env)"
  using assms
  by (auto simp: gatewayMux_def Let_def split: sum.splits option.splits)

text \<open>
  Claim C10. When the in-cluster configuration or the clientset cannot be built,
  \<open>gatewayMux\<close> returns an error and \<open>Serve\<close> returns it, described, before it
  has bound a listener or started anything.
\<close>

theorem gatewayMux_needs_cluster_client:
  assumes "inClusterConfigError env \<noteq> None \<or> newForConfigError env \<noteq> None"
  shows "\<exists>err. gatewayMux env = Inl err
          \<and> Serve env serveOpts =
              (Returns (Some (''failed to create gRPC server: '' @ err)), [Cancel])
          \<and> (handlePathError env ''/openapi.json'' = None \<and> handlePathError env ''/docs'' = None
               \<longrightarrow> err = (case inClusterConfigError env of
                            Some e \<Rightarrow> ''failed to retrieve in cluster configuration: '' @ e
                          | None \<Rightarrow> ''failed to retrieve clientset: '' @ the (newForConfigError env)))"
proof -
  obtain err where g: "gatewayMux env = Inl err"
    using gatewayMux_cluster_error [OF assms] by (cases "gatewayMux env") auto
  then have "Serve_body env serveOpts =
      (Returns (Some (''failed to create gRPC server: '' @ err)), [])"
    by (simp add: Serve_body_def createImprobableGRPCServer_def)
  then have "Serve env serveOpts =
      (Returns (Some (''failed to create gRPC server: '' @ err)), [Cancel])"
    by (simp add: Serve_def)
  moreover have "handlePathError env ''/openapi.json'' = None \<and> handlePathError env ''/docs'' = None
               \<longrightarrow> err = (case inClusterConfigError env of
                            Some e \<Rightarrow> ''failed to retrieve in cluster configuration: '' @ e
                          | None \<Rightarrow> ''failed to retrieve clientset: '' @ the (newForConfigError env))"
    using g assms
    by (auto simp: gatewayMux_def HandlePath_def Let_def split: option.splits)
  ultimately show ?thesis using g by simp
qed

section \<open>The example start\<close>

lemma decimal_8080: "decimal 8080 = ''8080''"
  by (simp add: decimal.simps [of 8080] decimal.simps [of 808] decimal.simps [of 80]
      decimal.simps [of 8] digit_char_def)

lemma listenAddr0: "'':'' @ Sprintf_d (Port serveOpts0) = '':8080''"
  by (simp add: serveOpts0_def Sprintf_d_def decimal_8080)

lemma gatewayMux_env0: "gatewayMux env0 = Inr gw0"
  by (simp add: gatewayMux_def HandlePath_def env0_def gw0_def)

lemma createImprobableGRPCServer_env0:
  "createImprobableGRPCServer env0 '':8080'' [] =
     (Inr (grpcSrv0, gwArgs0, ''[::]:34567''), [NetListen ''[::]:34567''])"
  by (simp add: createImprobableGRPCServer_def gatewayMux_env0 grpcSrv0_def gwArgs0_def)
     (simp add: env0_def)

lemma newPluginsServer_env0:
  "newPluginsServer env0 = Inr \<lparr>pluginsWithServers = [helm, resources, kapp]\<rparr>"
  by (simp add: env0_def)

lemma registerPluginsServiceServer_env0:
  "registerPluginsServiceServer env0 [] \<lparr>pluginsWithServers = [helm, resources, kapp]\<rparr> gwArgs0 =
     (None,
      [(''/kubeappsapis.core.plugins.v1alpha1.PluginsService/'', PluginsServiceHandler)],
      gwArgs0\<lparr>Mux := gw0\<lparr>endpoints := [''PluginsService'']\<rparr>\<rparr>)"
  by (simp add: registerPluginsServiceServer_def gwArgs0_def) (simp add: env0_def gw0_def)

lemma Atoi_34567: "Atoi ''34567'' = Inr 34567"
  by (simp add: Atoi_def isDigit_def)

lemma first_unusable_none: "first_unusable (\<lambda>p. None) ps = None"
  by (induction ps) simp_all

lemma startImprobableHandler_env0:
  "startImprobableHandler env0 \<lparr>pluginsWithServers = [helm, resources, kapp]\<rparr> ''[::]:34567''
      grpcSrv0 (gwArgs0\<lparr>Mux := gw0\<lparr>endpoints := [''PluginsService'']\<rparr>\<rparr>)
      [NetListen ''[::]:34567''] =
     (Inr 34567,
      [NetListen ''[::]:34567'', GoServeGrpc grpcListener, GoServeGrpc grpcWebListener,
       GoServeHttp \<lparr>ServerAddr = [], ReadTimeout = 0, ReadHeaderTimeout = 60000000000,
                    WriteTimeout = 0, IdleTimeout = 0\<rparr> httpListener,
       GoServeCMux startImprobableHandler_mux])"
proof -
  have pk: "fst (registerPackagesServiceServer env0 g \<lparr>pluginsWithServers = [helm, resources, kapp]\<rparr> a)
              = None" for g a
    by (simp add: registerPackagesServiceServer_def NewPackagesServer_def Let_def env0_def
        first_unusable_none)
  have rp: "fst (registerRepositoriesServiceServer env0 g \<lparr>pluginsWithServers = [helm, resources, kapp]\<rparr> a)
              = None" for g a
    by (simp add: registerRepositoriesServiceServer_def NewRepositoriesServer_def Let_def
        env0_def first_unusable_none)
  obtain g1 a1 where r1:
    "registerPackagesServiceServer env0 grpcSrv0 \<lparr>pluginsWithServers = [helm, resources, kapp]\<rparr>
       (gwArgs0\<lparr>Mux := gw0\<lparr>endpoints := [''PluginsService'']\<rparr>\<rparr>) = (None, g1, a1)"
    using pk [of grpcSrv0 "gwArgs0\<lparr>Mux := gw0\<lparr>endpoints := [''PluginsService'']\<rparr>\<rparr>"]
    by (cases "registerPackagesServiceServer env0 grpcSrv0
          \<lparr>pluginsWithServers = [helm, resources, kapp]\<rparr>
          (gwArgs0\<lparr>Mux := gw0\<lparr>endpoints := [''PluginsService'']\<rparr>\<rparr>)") simp
  obtain g2 a2 where r2:
    "registerRepositoriesServiceServer env0 g1 \<lparr>pluginsWithServers = [helm, resources, kapp]\<rparr>
       a1 = (None, g2, a2)"
    using rp [of g1 a1]
    by (cases "registerRepositoriesServiceServer env0 g1
          \<lparr>pluginsWithServers = [helm, resources, kapp]\<rparr> a1") simp
  show ?thesis
    unfolding startImprobableHandler_def Let_def
    by (simp add: r1 r2 Atoi_34567 Second_def)
qed

text \<open>
  Claim C7. The server of the front door is the one \<open>http.ListenAndServe\<close> builds:
  its header-read timeout is zero, that is, none. The timeout of 60 seconds is set on
  the server of the improbable handler's HTTP listener, behind the proxy.
\<close>

theorem Serve_front_door_has_no_header_timeout:
  "Serve env0 serveOpts0 =
     (Serving,
      [NetListen ''[::]:34567'', GoServeGrpc grpcListener, GoServeGrpc grpcWebListener,
       GoServeHttp \<lparr>ServerAddr = [], ReadTimeout = 0, ReadHeaderTimeout = 60000000000,
                    WriteTimeout = 0, IdleTimeout = 0\<rparr> httpListener,
       GoServeCMux startImprobableHandler_mux,
       Infof ''Starting server on :8080'',
       ListenAndServe \<lparr>ServerAddr = '':8080'', ReadTimeout = 0, ReadHeaderTimeout = 0,
                       WriteTimeout = 0, IdleTimeout = 0\<rparr>
         [(''/kubeappsapis.core.plugins.v1alpha1.PluginsService/'', PluginsServiceHandler),
          (''/grpc.health.v1.Health/'', HealthHandler),
          (''/'', ProxyToImprobable 34567)]])"
proof -
  have c: "createImprobableGRPCServer env0 ('':'' @ Sprintf_d (Port serveOpts0)) [] =
     (Inr (grpcSrv0, gwArgs0, ''[::]:34567''), [NetListen ''[::]:34567''])"
    by (simp only: listenAddr0 createImprobableGRPCServer_env0)
  have "Serve_body env0 serveOpts0 =
     (Serving,
      [NetListen ''[::]:34567'', GoServeGrpc grpcListener, GoServeGrpc grpcWebListener,
       GoServeHttp \<lparr>ServerAddr = [], ReadTimeout = 0, ReadHeaderTimeout = 60000000000,
                    WriteTimeout = 0, IdleTimeout = 0\<rparr> httpListener,
       GoServeCMux startImprobableHandler_mux,
       Infof ''Starting server on :8080'',
       ListenAndServe \<lparr>ServerAddr = '':8080'', ReadTimeout = 0, ReadHeaderTimeout = 0,
                       WriteTimeout = 0, IdleTimeout = 0\<rparr>
         [(''/kubeappsapis.core.plugins.v1alpha1.PluginsService/'', PluginsServiceHandler),
          (''/grpc.health.v1.Health/'', HealthHandler),
          (''/'', ProxyToImprobable 34567)]])"
    unfolding Serve_body_started [OF c newPluginsServer_env0 registerPluginsServiceServer_env0
        startImprobableHandler_env0] listenAddr0
    by (simp add: env0_def serveOpts0_def http_ListenAndServe_server_def)
  then show ?thesis
    by (simp only: Serve_def prod.case Outcome.case)
qed

end
